theory Spec2Isabelle
  imports Complex_Main "HOL-Library.Code_Target_Numeral"
begin

section \<open>Values, the engine and the store\<close>

text \<open>
  The repository holds two variants of one module over the browser's \<open>localStorage\<close>:
  the legacy JavaScript functions (\<open>getEntryFromStorage\<close>, \<open>setItemInStorage\<close>,
  \<open>hasPropertyForKey\<close>, \<open>updateStoredPropsForKey\<close>) and the typed object
  \<open>storageActions\<close> with the same four operations returning a \<open>StorageResult\<close>.

  A stored entry is whatever \<open>JSON.parse\<close> returns: a JSON value. An object is the list
  of its own properties in property order; a well-formed object has distinct keys. A
  number is a rational: every finite double is one, JSON has neither \<open>NaN\<close> nor an
  infinity, and the two zeros, which are both falsy, are not told apart. A string is the
  list of its code units.
\<close>

datatype json =
    JNull
  | JBool bool
  | JNum rat
  | JStr string
  | JArr "json list"
  | JObj "(string \<times> json) list"

text \<open>
  What a \<open>catch\<close> clause can receive. The three error classes are instances of
  \<open>Error\<close> and carry a message; \<open>NonError\<close> is any other thrown value.
\<close>

datatype thrown =
    SyntaxError string
  | TypeError string
  | RangeError string
  | NonError

text \<open>The sources' \<open>error instanceof Error ? error.message : "Unknown error"\<close>.\<close>

fun error_message :: "thrown \<Rightarrow> string" where
  "error_message (SyntaxError m) = m"
| "error_message (TypeError m) = m"
| "error_message (RangeError m) = m"
| "error_message NonError = ''Unknown error''"

text \<open>
  The built-in prototype objects a JSON value can inherit from.
\<close>

datatype proto = ObjectPrototype | ArrayPrototype | StringPrototype | NumberPrototype | BooleanPrototype

text \<open>
  The parts of the JavaScript engine that the module calls and that are not code of the
  repository: \<open>JSON.parse\<close> (which throws on text that is not JSON, with a message of the
  engine's choosing), \<open>JSON.stringify\<close> on JSON values, the names of the string-keyed
  properties of each built-in prototype, and the abstract operation \<open>ToNumber\<close>
  (\<open>None\<close> for \<open>NaN\<close> and the infinities).
\<close>

record engine =
  JSON_parse :: "string \<Rightarrow> thrown + json"
  JSON_stringify :: "json \<Rightarrow> string"
  prototype_keys :: "proto \<Rightarrow> string list"
  ToNumber :: "json \<Rightarrow> rat option"

text \<open>
  \<open>localStorage\<close> is not code of the repository either. It is the store of the
  specification's external interfaces: a map from string keys to strings, with
  \<open>getItem\<close> returning \<open>null\<close> for an absent key and \<open>setItem\<close> binding one key.
  Neither call throws here: a store that refuses access or is out of quota is outside
  this model, and so is the one way into the \<open>catch\<close> clause of a plain write.
\<close>

type_synonym storage = "string \<rightharpoonup> string"

definition getItem :: "storage \<Rightarrow> string \<Rightarrow> string option" where
  "getItem st key = st key"

definition setItem :: "storage \<Rightarrow> string \<Rightarrow> string \<Rightarrow> storage" where
  "setItem st key text = st(key \<mapsto> text)"

section \<open>JavaScript operations the module uses\<close>

text \<open>\<open>ToBoolean\<close>: \<open>null\<close>, \<open>false\<close>, \<open>0\<close> and the empty string are falsy.\<close>

fun truthy :: "json \<Rightarrow> bool" where
  "truthy JNull = False"
| "truthy (JBool b) = b"
| "truthy (JNum n) = (n \<noteq> 0)"
| "truthy (JStr s) = (s \<noteq> [])"
| "truthy (JArr xs) = True"
| "truthy (JObj kvs) = True"

text \<open>The canonical decimal numeral of an array index, as property keys spell it.\<close>

fun show_nat :: "nat \<Rightarrow> string" where
  "show_nat n =
     (if n < 10 then [''0123456789'' ! n]
      else show_nat (n div 10) @ [''0123456789'' ! (n mod 10)])"

definition index_keys :: "nat \<Rightarrow> string list" where
  "index_keys n = map show_nat [0..<n]"

text \<open>
  The own enumerable string-keyed properties of \<open>ToObject(v)\<close>, in order: what
  \<open>Object.keys\<close>, \<open>Object.entries\<close> and object spread \<open>{...v}\<close> see. A string
  has one property per code unit, an array one per element; the \<open>length\<close> of either
  is an own property that is not enumerable.
\<close>

fun own_enumerable :: "json \<Rightarrow> (string \<times> json) list" where
  "own_enumerable (JStr s) = zip (index_keys (length s)) (map (\<lambda>c. JStr [c]) s)"
| "own_enumerable (JArr xs) = zip (index_keys (length xs)) xs"
| "own_enumerable (JObj kvs) = kvs"
| "own_enumerable v = []"

text \<open>The value of an own property (enumerable or not) of \<open>ToObject(v)\<close>.\<close>

fun own_property :: "json \<Rightarrow> string \<Rightarrow> json option" where
  "own_property (JStr s) p =
     (if p = ''length'' then Some (JNum (of_nat (length s)))
      else map_of (own_enumerable (JStr s)) p)"
| "own_property (JArr xs) p =
     (if p = ''length'' then Some (JNum (of_nat (length xs)))
      else map_of (own_enumerable (JArr xs)) p)"
| "own_property (JObj kvs) p = map_of kvs p"
| "own_property v p = None"

text \<open>
  \<open>Object.prototype.hasOwnProperty.call(v, p)\<close>: \<open>ToObject\<close> throws on \<open>null\<close>.
  The messages of the engine's own errors are V8's; nothing below depends on their
  wording.
\<close>

fun hasOwnProperty :: "json \<Rightarrow> string \<Rightarrow> thrown + bool" where
  "hasOwnProperty JNull p = Inl (TypeError ''Cannot convert undefined or null to object'')"
| "hasOwnProperty v p = Inr (own_property v p \<noteq> None)"

text \<open>
  An array index is a property key that is the canonical numeral of an integer below
  \<open>2^32 - 1\<close>.
\<close>

definition digit_value :: "char \<Rightarrow> nat" where
  "digit_value c = length (takeWhile (\<lambda>d. d \<noteq> c) ''0123456789'')"

definition read_nat :: "string \<Rightarrow> nat" where
  "read_nat s = foldl (\<lambda>n c. 10 * n + digit_value c) 0 s"

definition array_index :: "string \<Rightarrow> nat option" where
  "array_index p =
     (if p \<noteq> [] \<and> list_all (\<lambda>c. c \<in> set ''0123456789'') p
         \<and> show_nat (read_nat p) = p \<and> read_nat p < 4294967295
      then Some (read_nat p) else None)"

text \<open>
  Defining a data property on an object (\<open>CreateDataProperty\<close>, and an assignment that
  reaches the object itself). An existing key keeps its place and takes the new value. A
  new key takes its place in property order: the array indices come first, in ascending
  order, and the other keys follow in the order of their creation.
\<close>

fun insert_index :: "nat \<Rightarrow> string \<Rightarrow> json \<Rightarrow> (string \<times> json) list \<Rightarrow> (string \<times> json) list" where
  "insert_index i k v [] = [(k, v)]"
| "insert_index i k v ((k', v') # kvs) =
     (case array_index k' of
        Some j \<Rightarrow> if j < i then (k', v') # insert_index i k v kvs else (k, v) # (k', v') # kvs
      | None \<Rightarrow> (k, v) # (k', v') # kvs)"

definition put :: "string \<Rightarrow> json \<Rightarrow> (string \<times> json) list \<Rightarrow> (string \<times> json) list" where
  "put k v kvs =
     (if map_of kvs k \<noteq> None then map (\<lambda>(k', v'). if k' = k then (k, v) else (k', v')) kvs
      else
        (case array_index k of
           Some i \<Rightarrow> insert_index i k v kvs
         | None \<Rightarrow> kvs @ [(k, v)]))"

text \<open>Copying properties one by one into an object: spread and \<open>Object.fromEntries\<close>.\<close>

fun put_all :: "(string \<times> json) list \<Rightarrow> (string \<times> json) list \<Rightarrow> (string \<times> json) list" where
  "put_all acc [] = acc"
| "put_all acc ((k, v) # kvs) = put_all (put k v acc) kvs"

definition fromEntries :: "(string \<times> json) list \<Rightarrow> (string \<times> json) list" where
  "fromEntries entries = put_all [] entries"

text \<open>
  \<open>entries.filter(([key]) => pred(key))\<close> with a predicate that may throw: the first
  throw ends the loop.
\<close>

fun filter_entries :: "(string \<Rightarrow> thrown + bool) \<Rightarrow> (string \<times> json) list \<Rightarrow> thrown + (string \<times> json) list" where
  "filter_entries pred [] = Inr []"
| "filter_entries pred ((k, v) # kvs) =
     (case pred k of
        Inl e \<Rightarrow> Inl e
      | Inr keep \<Rightarrow>
          (case filter_entries pred kvs of
             Inl e \<Rightarrow> Inl e
           | Inr rest \<Rightarrow> Inr (if keep then (k, v) # rest else rest)))"

text \<open>\<open>String.prototype.includes\<close>: the pattern occurs somewhere in the text.\<close>

fun str_includes :: "string \<Rightarrow> string \<Rightarrow> bool" where
  "str_includes [] pat = (pat = [])"
| "str_includes (c # cs) pat = (take (length pat) (c # cs) = pat \<or> str_includes cs pat)"

text \<open>
  The built-in prototypes a JSON value inherits from, nearest first: an array from
  \<open>Array.prototype\<close> and then \<open>Object.prototype\<close>, a primitive through its wrapper.
\<close>

fun prototype_chain :: "json \<Rightarrow> proto list" where
  "prototype_chain JNull = []"
| "prototype_chain (JBool b) = [BooleanPrototype, ObjectPrototype]"
| "prototype_chain (JNum n) = [NumberPrototype, ObjectPrototype]"
| "prototype_chain (JStr s) = [StringPrototype, ObjectPrototype]"
| "prototype_chain (JArr xs) = [ArrayPrototype, ObjectPrototype]"
| "prototype_chain (JObj kvs) = [ObjectPrototype]"

definition inherits :: "engine \<Rightarrow> json \<Rightarrow> string \<Rightarrow> bool" where
  "inherits js v p = list_ex (\<lambda>pr. p \<in> set (prototype_keys js pr)) (prototype_chain v)"

definition quoted :: "string \<Rightarrow> string" where
  "quoted s = CHR 0x27 # s @ [CHR 0x27]"

text \<open>How the message of a failed \<open>in\<close> or assignment prints its operand.\<close>

definition display :: "engine \<Rightarrow> json \<Rightarrow> string" where
  "display js v = (case v of JStr s \<Rightarrow> s | _ \<Rightarrow> JSON_stringify js v)"

text \<open>
  \<open>p in v\<close>: throws when the right operand is not an object, else looks for the key
  among the own properties and along the prototype chain.
\<close>

fun in_operator :: "engine \<Rightarrow> string \<Rightarrow> json \<Rightarrow> thrown + bool" where
  "in_operator js p (JArr xs) = Inr (own_property (JArr xs) p \<noteq> None \<or> inherits js (JArr xs) p)"
| "in_operator js p (JObj kvs) = Inr (own_property (JObj kvs) p \<noteq> None \<or> inherits js (JObj kvs) p)"
| "in_operator js p v =
     Inl (TypeError (''Cannot use '' @ quoted ''in'' @ '' operator to search for '' @ quoted p
            @ '' in '' @ display js v))"

subsection \<open>Reading and assigning properties of a parsed entry\<close>

text \<open>
  The legacy functions read \<open>entry[key]\<close> and assign \<open>entry[key] = v\<close> on the parsed
  entry. A read that finds no own property goes up the prototype chain; what it finds
  there on a built-in prototype is a function or a prototype object, of which the
  sources only test the truth value (\<open>Builtin\<close>).
\<close>

datatype jsval = Undefined | Builtin | Val json

fun js_truthy :: "jsval \<Rightarrow> bool" where
  "js_truthy Undefined = False"
| "js_truthy Builtin = True"
| "js_truthy (Val v) = truthy v"

text \<open>
  The entry while the loop assigns to it: a primitive (which nothing can change), a
  plain object, or an array with its elements (\<open>None\<close> is a hole), and the properties
  with other names set on it. \<open>replaced_proto\<close> is the value an assignment to the
  inherited accessor \<open>__proto__\<close> has put in place of the built-in prototype.
\<close>

datatype shape =
    Primitive json
  | Plain "(string \<times> json) list"
  | Array "json option list" "(string \<times> json) list"

record object_state =
  own :: shape
  replaced_proto :: "json option"

fun from_json :: "json \<Rightarrow> object_state" where
  "from_json (JObj kvs) = \<lparr>own = Plain kvs, replaced_proto = None\<rparr>"
| "from_json (JArr xs) = \<lparr>own = Array (map Some xs) [], replaced_proto = None\<rparr>"
| "from_json v = \<lparr>own = Primitive v, replaced_proto = None\<rparr>"

text \<open>
  What \<open>JSON.stringify\<close> sees of the entry: its own enumerable properties, a hole of
  an array as \<open>null\<close>, and none of an array's other properties.
\<close>

fun to_json :: "object_state \<Rightarrow> json" where
  "to_json st =
     (case own st of
        Primitive v \<Rightarrow> v
      | Plain kvs \<Rightarrow> JObj kvs
      | Array els extra \<Rightarrow> JArr (map (\<lambda>el. case el of None \<Rightarrow> JNull | Some v \<Rightarrow> v) els))"

fun own_value :: "shape \<Rightarrow> string \<Rightarrow> json option" where
  "own_value (Primitive v) p = own_property v p"
| "own_value (Plain kvs) p = map_of kvs p"
| "own_value (Array els extra) p =
     (if p = ''length'' then Some (JNum (of_nat (length els)))
      else
        (case array_index p of
           Some i \<Rightarrow> (if i < length els then els ! i else None)
         | None \<Rightarrow> map_of extra p))"

fun default_chain :: "shape \<Rightarrow> proto list" where
  "default_chain (Primitive v) = prototype_chain v"
| "default_chain (Plain kvs) = [ObjectPrototype]"
| "default_chain (Array els extra) = [ArrayPrototype, ObjectPrototype]"

text \<open>The lookup past the own properties.\<close>

definition on_chain :: "engine \<Rightarrow> object_state \<Rightarrow> string \<Rightarrow> jsval" where
  "on_chain js st p =
     (case replaced_proto st of
        None \<Rightarrow>
          if list_ex (\<lambda>pr. p \<in> set (prototype_keys js pr)) (default_chain (own st))
          then Builtin else Undefined
      | Some JNull \<Rightarrow> Undefined
      | Some pv \<Rightarrow>
          (case own_property pv p of
             Some x \<Rightarrow> Val x
           | None \<Rightarrow> if inherits js pv p then Builtin else Undefined))"

text \<open>\<open>entry[p]\<close>: reading a property of \<open>null\<close> throws.\<close>

definition get_property :: "engine \<Rightarrow> object_state \<Rightarrow> string \<Rightarrow> thrown + jsval" where
  "get_property js st p =
     (case own st of
        Primitive JNull \<Rightarrow>
          Inl (TypeError (''Cannot read properties of null (reading '' @ quoted p @ '')''))
      | _ \<Rightarrow>
          Inr (case own_value (own st) p of
                 Some x \<Rightarrow> Val x
               | None \<Rightarrow> on_chain js st p))"

text \<open>
  An assignment to \<open>__proto__\<close> that finds no data property of that name before
  \<open>Object.prototype\<close> calls the accessor's setter there.
\<close>

definition reaches_proto_setter :: "engine \<Rightarrow> object_state \<Rightarrow> string \<Rightarrow> bool" where
  "reaches_proto_setter js st p =
     (p = ''__proto__'' \<and> own_value (own st) p = None
      \<and> p \<in> set (prototype_keys js ObjectPrototype)
      \<and> (case replaced_proto st of
            None \<Rightarrow> True
          | Some JNull \<Rightarrow> False
          | Some pv \<Rightarrow> own_property pv p = None))"

text \<open>
  The setter replaces the prototype of an object when it is given an object or
  \<open>null\<close>, and does nothing otherwise.
\<close>

fun set_proto :: "object_state \<Rightarrow> json \<Rightarrow> object_state" where
  "set_proto st (JObj kvs) = st\<lparr>replaced_proto := Some (JObj kvs)\<rparr>"
| "set_proto st (JArr xs) = st\<lparr>replaced_proto := Some (JArr xs)\<rparr>"
| "set_proto st JNull = st\<lparr>replaced_proto := Some JNull\<rparr>"
| "set_proto st v = st"

fun typeof :: "json \<Rightarrow> string" where
  "typeof (JBool b) = ''boolean''"
| "typeof (JNum n) = ''number''"
| "typeof (JStr s) = ''string''"
| "typeof v = ''object''"

text \<open>
  The length an assignment to an array's \<open>length\<close> asks for: \<open>ToNumber\<close> of the value,
  which has to be an integer from 0 to \<open>2^32 - 1\<close>.
\<close>

definition array_length :: "engine \<Rightarrow> json \<Rightarrow> nat option" where
  "array_length js v =
     (case ToNumber js v of
        None \<Rightarrow> None
      | Some n \<Rightarrow>
          if n = of_int \<lfloor>n\<rfloor> \<and> 0 \<le> n \<and> n < 4294967296 then Some (nat \<lfloor>n\<rfloor>) else None)"

text \<open>
  \<open>entry[p] = v\<close> in strict mode (the legacy file is a module). A primitive takes no
  property; an object takes the value as an own property, at the place of the old one
  if it has one; an array stores an element at an index, growing with holes, and
  resizes on \<open>length\<close>.
\<close>

definition assign :: "engine \<Rightarrow> object_state \<Rightarrow> string \<Rightarrow> json \<Rightarrow> thrown + object_state" where
  "assign js st p v =
     (case own st of
        Primitive JNull \<Rightarrow>
          Inl (TypeError (''Cannot set properties of null (setting '' @ quoted p @ '')''))
      | Primitive prim \<Rightarrow>
          if own_property prim p \<noteq> None then
            Inl (TypeError (''Cannot assign to read only property '' @ quoted p @ '' of ''
                   @ typeof prim @ '' '' @ quoted (display js prim)))
          else if reaches_proto_setter js st p then Inr st
          else
            Inl (TypeError (''Cannot create property '' @ quoted p @ '' on ''
                   @ typeof prim @ '' '' @ quoted (display js prim)))
      | Plain kvs \<Rightarrow>
          if reaches_proto_setter js st p then Inr (set_proto st v)
          else Inr (st\<lparr>own := Plain (put p v kvs)\<rparr>)
      | Array els extra \<Rightarrow>
          if p = ''length'' then
            (case array_length js v of
               None \<Rightarrow> Inl (RangeError ''Invalid array length'')
             | Some n \<Rightarrow> Inr (st\<lparr>own := Array (take n els @ replicate (n - length els) None) extra\<rparr>))
          else
            (case array_index p of
               Some i \<Rightarrow>
                 Inr (st\<lparr>own := Array ((els @ replicate (Suc i - length els) None)[i := Some v]) extra\<rparr>)
             | None \<Rightarrow>
                 if reaches_proto_setter js st p then Inr (set_proto st v)
                 else Inr (st\<lparr>own := Array els (put p v extra)\<rparr>)))"

text \<open>\<open>Object.keys(value)\<close> with \<open>value[key]\<close> beside each key; \<open>null\<close> has no keys to give.\<close>

fun object_keys :: "json \<Rightarrow> thrown + (string \<times> json) list" where
  "object_keys JNull = Inl (TypeError ''Cannot convert undefined or null to object'')"
| "object_keys v = Inr (own_enumerable v)"

section \<open>The legacy variant\<close>

text \<open>
  Each function computes its result from the store and returns the store it leaves.
  The calls to \<open>console.error\<close> in the \<open>catch\<close> clauses write to the console only and
  are left out.

  \<open>getEntryFromStorage\<close>: the \<open>try\<close> block throws and catches its own error when the
  looked-up text is \<open>null\<close> or empty (\<open>!result\<close>), which only logs; the \<open>return\<close>
  after it parses a non-empty text outside the \<open>try\<close>, so a parse failure leaves the
  function as an exception (\<open>Inl\<close>).
\<close>

definition getEntryFromStorage :: "engine \<Rightarrow> string \<Rightarrow> storage \<Rightarrow> (thrown + json) \<times> storage" where
  "getEntryFromStorage js key st =
     (case getItem st key of
        None \<Rightarrow> (Inr JNull, st)
      | Some result \<Rightarrow>
          if result = [] then (Inr JNull, st)
          else (JSON_parse js result, st))"

text \<open>
  The loop of preserve mode,
  \<open>Object.keys(value).forEach((key) => { if (!entry[key]) { entry[key] = value[key]; } })\<close>;
  a throw ends it.
\<close>

fun preserve_loop :: "engine \<Rightarrow> object_state \<Rightarrow> (string \<times> json) list \<Rightarrow> thrown + object_state" where
  "preserve_loop js entry [] = Inr entry"
| "preserve_loop js entry ((key, v) # rest) =
     (case get_property js entry key of
        Inl e \<Rightarrow> Inl e
      | Inr cur \<Rightarrow>
          if \<not> js_truthy cur then
            (case assign js entry key v of
               Inl e \<Rightarrow> Inl e
             | Inr entry' \<Rightarrow> preserve_loop js entry' rest)
          else preserve_loop js entry rest)"

text \<open>
  \<open>setItemInStorage\<close>: everything happens inside one \<open>try\<close>; any throw is caught and
  the function returns \<open>false\<close>. The only write to the store is the last statement of
  either branch.
\<close>

definition setItemInStorage :: "engine \<Rightarrow> string \<Rightarrow> json \<Rightarrow> bool \<Rightarrow> storage \<Rightarrow> bool \<times> storage" where
  "setItemInStorage js key val preserveExisting st =
     (if \<not> preserveExisting then (True, setItem st key (JSON_stringify js val))
      else
        (let (got, st1) = getEntryFromStorage js key st in
         case got of
           Inl e \<Rightarrow> (False, st1)
         | Inr entry \<Rightarrow>
             (case object_keys val of
                Inl e \<Rightarrow> (False, st1)
              | Inr entries \<Rightarrow>
                  (case preserve_loop js (from_json entry) entries of
                     Inl e \<Rightarrow> (False, st1)
                   | Inr entry' \<Rightarrow> (True, setItem st1 key (JSON_stringify js (to_json entry')))))))"

text \<open>
  \<open>hasPropertyForKey\<close> returns the value of \<open>entry && entry[property] !== undefined\<close>,
  or the initial \<open>false\<close> when the read throws.
\<close>

definition hasPropertyForKey :: "engine \<Rightarrow> string \<Rightarrow> string \<Rightarrow> storage \<Rightarrow> json \<times> storage" where
  "hasPropertyForKey js key property st =
     (let (got, st1) = getEntryFromStorage js key st in
      case got of
        Inl e \<Rightarrow> (JBool False, st1)
      | Inr entry \<Rightarrow>
          if \<not> truthy entry then (entry, st1)
          else
            (case get_property js (from_json entry) property of
               Inl e \<Rightarrow> (JBool False, st1)
             | Inr x \<Rightarrow> (JBool (x \<noteq> Undefined), st1)))"

text \<open>
  The loop of \<open>updateStoredPropsForKey\<close>,
  \<open>if (entry[property]) { entry[property] = propertyUpdates[property]; }\<close> for each key
  of the updates.
\<close>

fun update_loop :: "engine \<Rightarrow> object_state \<Rightarrow> (string \<times> json) list \<Rightarrow> thrown + object_state" where
  "update_loop js entry [] = Inr entry"
| "update_loop js entry ((property, v) # rest) =
     (case get_property js entry property of
        Inl e \<Rightarrow> Inl e
      | Inr cur \<Rightarrow>
          if js_truthy cur then
            (case assign js entry property v of
               Inl e \<Rightarrow> Inl e
             | Inr entry' \<Rightarrow> update_loop js entry' rest)
          else update_loop js entry rest)"

definition updateStoredPropsForKey :: "engine \<Rightarrow> string \<Rightarrow> json \<Rightarrow> storage \<Rightarrow> bool \<times> storage" where
  "updateStoredPropsForKey js key propertyUpdates st =
     (let (got, st1) = getEntryFromStorage js key st in
      case got of
        Inl e \<Rightarrow> (False, st1)
      | Inr entry \<Rightarrow>
          (case object_keys propertyUpdates of
             Inl e \<Rightarrow> (False, st1)
           | Inr entries \<Rightarrow>
               (case update_loop js (from_json entry) entries of
                  Inl e \<Rightarrow> (False, st1)
                | Inr entry' \<Rightarrow> (True, setItem st1 key (JSON_stringify js (to_json entry'))))))"

section \<open>The typed variant\<close>

text \<open>
  \<open>interface StorageResult<T> { success: boolean; data?: T; error?: string }\<close>: an
  optional field that is absent is \<open>None\<close>.
\<close>

record StorageResult =
  success :: bool
  data :: "json option"
  error :: "string option"

definition storageActions_getEntryFromStorage :: "engine \<Rightarrow> string \<Rightarrow> storage \<Rightarrow> StorageResult \<times> storage" where
  "storageActions_getEntryFromStorage js key st =
     (case getItem st key of
        None \<Rightarrow>
          (\<lparr>success = False, data = None, error = Some (key @ '' not found in storage.'')\<rparr>, st)
      | Some result \<Rightarrow>
          if result = [] then
            (\<lparr>success = False, data = None, error = Some (key @ '' not found in storage.'')\<rparr>, st)
          else
            (case JSON_parse js result of
               Inr v \<Rightarrow> (\<lparr>success = True, data = Some v, error = None\<rparr>, st)
             | Inl e \<Rightarrow>
                 (\<lparr>success = False, data = None,
                   error = Some (''Failed to get entry from storage: '' @ error_message e)\<rparr>, st)))"

text \<open>
  \<open>{...d, ...Object.fromEntries(Object.entries(value).filter(keep))}\<close>, the object both
  merging operations build; the filter's predicate may throw. A \<open>data\<close> that is
  \<open>undefined\<close> spreads to nothing and fails \<open>ToObject\<close>, as \<open>null\<close> does.
\<close>

definition merged :: "json option \<Rightarrow> (json \<Rightarrow> string \<Rightarrow> thrown + bool) \<Rightarrow> (string \<times> json) list \<Rightarrow> thrown + (string \<times> json) list" where
  "merged dat keep entries =
     (let d = (case dat of None \<Rightarrow> JNull | Some v \<Rightarrow> v) in
      case filter_entries (keep d) entries of
        Inl e \<Rightarrow> Inl e
      | Inr kept \<Rightarrow> Inr (put_all (put_all [] (own_enumerable d)) (fromEntries kept)))"

text \<open>
  \<open>storageActions.setItemInStorage\<close>. The value is a \<open>JSONObject\<close>, given by its
  properties. In preserve mode the result of the read is taken apart; a failure whose
  message includes \<open>not found\<close> is answered with a plain write.
\<close>

definition storageActions_setItemInStorage :: "engine \<Rightarrow> string \<Rightarrow> (string \<times> json) list \<Rightarrow> bool \<Rightarrow> storage \<Rightarrow> StorageResult \<times> storage" where
  "storageActions_setItemInStorage js key val preserveExisting st =
     (if \<not> preserveExisting then
        (\<lparr>success = True, data = Some (JObj val), error = None\<rparr>,
         setItem st key (JSON_stringify js (JObj val)))
      else
        (let (r, st1) = storageActions_getEntryFromStorage js key st in
         if \<not> success r \<and> (case error r of None \<Rightarrow> False | Some m \<Rightarrow> str_includes m ''not found'') then
           (\<lparr>success = True, data = Some (JObj val), error = None\<rparr>,
            setItem st1 key (JSON_stringify js (JObj val)))
         else if \<not> success r then
           (\<lparr>success = False, data = None, error = error r\<rparr>, st1)
         else
           (case merged (data r) (\<lambda>d k. map_sum id Not (hasOwnProperty d k)) val of
              Inl e \<Rightarrow>
                (\<lparr>success = False, data = None,
                  error = Some (''Failed to set item in storage: '' @ error_message e)\<rparr>, st1)
            | Inr updatedValue \<Rightarrow>
                (\<lparr>success = True, data = Some (JObj updatedValue), error = None\<rparr>,
                 setItem st1 key (JSON_stringify js (JObj updatedValue))))))"

text \<open>
  \<open>storageActions.hasPropertyForKey\<close>: the \<open>data\<close> of the result is the value of
  \<open>data && property in data\<close>, which is the entry itself when the entry is falsy.
\<close>

definition storageActions_hasPropertyForKey :: "engine \<Rightarrow> string \<Rightarrow> string \<Rightarrow> storage \<Rightarrow> StorageResult \<times> storage" where
  "storageActions_hasPropertyForKey js key property st =
     (let (r, st1) = storageActions_getEntryFromStorage js key st in
      if \<not> success r then
        (\<lparr>success = False, data = None, error = error r\<rparr>, st1)
      else
        (case data r of
           None \<Rightarrow> (\<lparr>success = True, data = None, error = None\<rparr>, st1)
         | Some d \<Rightarrow>
             if \<not> truthy d then (\<lparr>success = True, data = Some d, error = None\<rparr>, st1)
             else
               (case in_operator js property d of
                  Inl e \<Rightarrow>
                    (\<lparr>success = False, data = None,
                      error = Some (''Failed to check property: '' @ error_message e)\<rparr>, st1)
                | Inr found \<Rightarrow> (\<lparr>success = True, data = Some (JBool found), error = None\<rparr>, st1))))"

text \<open>
  \<open>storageActions.updateStoredPropsForKey\<close>: the same merge with the filter turned
  round, and no special case for a missing entry.
\<close>

definition storageActions_updateStoredPropsForKey :: "engine \<Rightarrow> string \<Rightarrow> (string \<times> json) list \<Rightarrow> storage \<Rightarrow> StorageResult \<times> storage" where
  "storageActions_updateStoredPropsForKey js key propertyUpdates st =
     (let (r, st1) = storageActions_getEntryFromStorage js key st in
      if \<not> success r then
        (\<lparr>success = False, data = None, error = error r\<rparr>, st1)
      else
        (case merged (data r) hasOwnProperty propertyUpdates of
           Inl e \<Rightarrow>
             (\<lparr>success = False, data = None,
               error = Some (''Failed to update properties: '' @ error_message e)\<rparr>, st1)
         | Inr updatedValue \<Rightarrow>
             (\<lparr>success = True, data = Some (JObj updatedValue), error = None\<rparr>,
              setItem st1 key (JSON_stringify js (JObj updatedValue)))))"

section \<open>A sample engine\<close>

text \<open>
  An engine to run the functions on: a finite table of texts with the values they
  denote, read in one direction by \<open>JSON.parse\<close> and in the other by
  \<open>JSON.stringify\<close>. The sample rejects every other text; for the text
  \<open>item not found\<close> it does so with the message V8 gives, which names the offending
  character and quotes a short source text in full. A value outside the table has no
  text in the sample (the empty string).
\<close>

definition dquoted :: "string \<Rightarrow> string" where
  "dquoted s = CHR 0x22 # s @ [CHR 0x22]"

definition json_samples :: "(string \<times> json) list" where
  "json_samples =
     [(''null'', JNull),
      (''{}'', JObj []),
      (''{'' @ dquoted ''a'' @ '':0}'', JObj [(''a'', JNum 0)]),
      (''{'' @ dquoted ''a'' @ '':1}'', JObj [(''a'', JNum 1)]),
      (''{'' @ dquoted ''a'' @ '':5}'', JObj [(''a'', JNum 5)]),
      (''{'' @ dquoted ''a'' @ '':99}'', JObj [(''a'', JNum 99)]),
      (''{'' @ dquoted ''b'' @ '':2}'', JObj [(''b'', JNum 2)]),
      (''{'' @ dquoted ''a'' @ '':1,'' @ dquoted ''b'' @ '':2}'', JObj [(''a'', JNum 1), (''b'', JNum 2)]),
      (''{'' @ dquoted ''a'' @ '':1,'' @ dquoted ''toString'' @ '':'' @ dquoted ''x'' @ ''}'',
         JObj [(''a'', JNum 1), (''toString'', JStr ''x'')])]"

definition sample_parse :: "string \<Rightarrow> thrown + json" where
  "sample_parse text =
     (case map_of json_samples text of
        Some v \<Rightarrow> Inr v
      | None \<Rightarrow>
          if text = ''item not found'' then
            Inl (SyntaxError (''Unexpected token '' @ quoted ''i'' @ '', ''
                   @ dquoted ''item not found'' @ '' is not valid JSON''))
          else Inl (SyntaxError ''Unexpected end of JSON input''))"

definition sample_stringify :: "json \<Rightarrow> string" where
  "sample_stringify v =
     (case map_of (map (\<lambda>(text, w). (w, text)) json_samples) v of
        Some text \<Rightarrow> text
      | None \<Rightarrow> [])"

text \<open>
  The properties of the built-in prototypes that hold a function or an object, by name,
  as V8 has them. (The \<open>length\<close> of \<open>Array.prototype\<close> and of \<open>String.prototype\<close> is
  left out: an array or a string has a \<open>length\<close> of its own and never reads it.)
\<close>

fun sample_prototype_keys :: "proto \<Rightarrow> string list" where
  "sample_prototype_keys ObjectPrototype =
     [''constructor'', ''__defineGetter__'', ''__defineSetter__'', ''hasOwnProperty'',
      ''__lookupGetter__'', ''__lookupSetter__'', ''isPrototypeOf'', ''propertyIsEnumerable'',
      ''toString'', ''valueOf'', ''__proto__'', ''toLocaleString'']"
| "sample_prototype_keys ArrayPrototype =
     [''constructor'', ''at'', ''concat'', ''copyWithin'', ''fill'', ''find'', ''findIndex'',
      ''findLast'', ''findLastIndex'', ''lastIndexOf'', ''pop'', ''push'', ''reverse'', ''shift'',
      ''unshift'', ''slice'', ''sort'', ''splice'', ''includes'', ''indexOf'', ''join'', ''keys'',
      ''entries'', ''values'', ''forEach'', ''filter'', ''flat'', ''flatMap'', ''map'', ''every'',
      ''some'', ''reduce'', ''reduceRight'', ''toLocaleString'', ''toString'', ''toReversed'',
      ''toSorted'', ''toSpliced'', ''with'']"
| "sample_prototype_keys StringPrototype =
     [''constructor'', ''anchor'', ''at'', ''big'', ''blink'', ''bold'', ''charAt'', ''charCodeAt'',
      ''codePointAt'', ''concat'', ''endsWith'', ''fontcolor'', ''fontsize'', ''fixed'', ''includes'',
      ''indexOf'', ''isWellFormed'', ''italics'', ''lastIndexOf'', ''link'', ''localeCompare'',
      ''match'', ''matchAll'', ''normalize'', ''padEnd'', ''padStart'', ''repeat'', ''replace'',
      ''replaceAll'', ''search'', ''slice'', ''small'', ''split'', ''strike'', ''sub'', ''substr'',
      ''substring'', ''sup'', ''startsWith'', ''toString'', ''toWellFormed'', ''trim'', ''trimStart'',
      ''trimLeft'', ''trimEnd'', ''trimRight'', ''toLocaleLowerCase'', ''toLocaleUpperCase'',
      ''toLowerCase'', ''toUpperCase'', ''valueOf'']"
| "sample_prototype_keys NumberPrototype =
     [''constructor'', ''toExponential'', ''toFixed'', ''toPrecision'', ''toString'', ''valueOf'',
      ''toLocaleString'']"
| "sample_prototype_keys BooleanPrototype = [''constructor'', ''toString'', ''valueOf'']"

text \<open>
  \<open>ToNumber\<close> on \<open>null\<close>, booleans and numbers. The sample has no answer for strings
  and objects (it says \<open>NaN\<close>); no run below converts one.
\<close>

fun sample_ToNumber :: "json \<Rightarrow> rat option" where
  "sample_ToNumber JNull = Some 0"
| "sample_ToNumber (JBool b) = Some (if b then 1 else 0)"
| "sample_ToNumber (JNum n) = Some n"
| "sample_ToNumber v = None"

definition sample_engine :: engine where
  "sample_engine =
     \<lparr>JSON_parse = sample_parse, JSON_stringify = sample_stringify,
      prototype_keys = sample_prototype_keys, ToNumber = sample_ToNumber\<rparr>"

section \<open>Properties\<close>

text \<open>A value is JSON-serializable when its text is not empty and parses back to it.\<close>

definition json_serializable :: "engine \<Rightarrow> json \<Rightarrow> bool" where
  "json_serializable js v = (JSON_stringify js v \<noteq> [] \<and> JSON_parse js (JSON_stringify js v) = Inr v)"

text \<open>The invariant of a \<open>StorageResult\<close>.\<close>

definition result_invariant :: "StorageResult \<Rightarrow> bool" where
  "result_invariant r = ((success r \<longrightarrow> error r = None) \<and> (\<not> success r \<longrightarrow> data r = None))"

subsection \<open>Evaluating the sample engine\<close>

lemmas sample_defs =
  sample_engine_def sample_parse_def sample_stringify_def json_samples_def dquoted_def quoted_def

lemmas store_defs = getItem_def setItem_def

lemmas index_defs = array_index_def read_nat_def digit_value_def

lemmas assignment_defs =
  get_property_def assign_def reaches_proto_setter_def on_chain_def put_def index_defs

subsection \<open>Reading\<close>

text \<open>
  C9. For every key and every state of the store, the read operation of either variant
  leaves the store as it was: the store that \<open>getEntryFromStorage\<close> returns is the one
  it was given.
\<close>

theorem read_leaves_store_unchanged:
  "snd (getEntryFromStorage js key st) = st
   \<and> snd (storageActions_getEntryFromStorage js key st) = st"
  by (simp add: getEntryFromStorage_def storageActions_getEntryFromStorage_def
      split: option.split sum.split)

text \<open>
  C8. When the store has no entry for the key, or an empty one, the legacy
  \<open>getEntryFromStorage\<close> returns \<open>null\<close> and the typed one returns a failure without
  data whose message says that the key was not found in storage.
\<close>

theorem read_of_missing_key_not_found:
  assumes "getItem st key = None \<or> getItem st key = Some []"
  shows "getEntryFromStorage js key st = (Inr JNull, st)
    \<and> storageActions_getEntryFromStorage js key st =
        (\<lparr>success = False, data = None, error = Some (key @ '' not found in storage.'')\<rparr>, st)"
  using assms
  by (auto simp: getEntryFromStorage_def storageActions_getEntryFromStorage_def)

theorem read_of_missing_key_not_found_witness:
  "getItem Map.empty ''missing-key'' = None
   \<and> getEntryFromStorage sample_engine ''missing-key'' Map.empty = (Inr JNull, Map.empty)
   \<and> storageActions_getEntryFromStorage sample_engine ''missing-key'' Map.empty =
        (\<lparr>success = False, data = None, error = Some ''missing-key not found in storage.''\<rparr>,
         Map.empty)"
proof -
  have absent: "getItem Map.empty ''missing-key'' = None"
    by (simp add: getItem_def)
  then have "getItem Map.empty ''missing-key'' = None \<or> getItem Map.empty ''missing-key'' = Some []"
    by simp
  from read_of_missing_key_not_found [OF this, of sample_engine] absent
  show ?thesis by simp
qed

subsection \<open>Writing and reading back\<close>

lemma getItem_setItem: "getItem (setItem st key text) key = Some text"
  by (simp add: store_defs)

text \<open>
  C4. For every key and every JSON-serializable value, a plain write
  (\<open>preserveExisting = false\<close>) reports success and a read of the same key afterwards
  yields the value: in the legacy variant for any value, in the typed variant for the
  objects its type admits.
\<close>

theorem write_then_read_round_trip:
  "(json_serializable js v \<longrightarrow>
      fst (setItemInStorage js key v False st) = True
      \<and> fst (getEntryFromStorage js key (snd (setItemInStorage js key v False st))) = Inr v)
   \<and> (json_serializable js (JObj val) \<longrightarrow>
      success (fst (storageActions_setItemInStorage js key val False st))
      \<and> fst (storageActions_getEntryFromStorage js key
              (snd (storageActions_setItemInStorage js key val False st)))
          = \<lparr>success = True, data = Some (JObj val), error = None\<rparr>)"
  by (simp add: json_serializable_def setItemInStorage_def getEntryFromStorage_def
      storageActions_setItemInStorage_def storageActions_getEntryFromStorage_def getItem_setItem)

theorem write_then_read_round_trip_witness:
  "json_serializable sample_engine (JObj [(''a'', JNum 1)])
   \<and> fst (setItemInStorage sample_engine ''k'' (JObj [(''a'', JNum 1)]) False Map.empty) = True
   \<and> fst (getEntryFromStorage sample_engine ''k''
        (snd (setItemInStorage sample_engine ''k'' (JObj [(''a'', JNum 1)]) False Map.empty)))
       = Inr (JObj [(''a'', JNum 1)])
   \<and> fst (storageActions_getEntryFromStorage sample_engine ''k''
        (snd (storageActions_setItemInStorage sample_engine ''k'' [(''a'', JNum 1)] False Map.empty)))
       = \<lparr>success = True, data = Some (JObj [(''a'', JNum 1)]), error = None\<rparr>"
proof -
  have ser: "json_serializable sample_engine (JObj [(''a'', JNum 1)])"
    by (simp add: json_serializable_def sample_defs)
  from write_then_read_round_trip
    [of sample_engine "JObj [(''a'', JNum 1)]" "''k''" Map.empty "[(''a'', JNum 1)]"] ser
  show ?thesis by simp
qed

subsection \<open>The invariant of the typed results\<close>

lemma invariant_getEntryFromStorage:
  "result_invariant (fst (storageActions_getEntryFromStorage js key st))"
  by (simp add: result_invariant_def storageActions_getEntryFromStorage_def
      split: option.split sum.split)

lemma invariant_setItemInStorage:
  "result_invariant (fst (storageActions_setItemInStorage js key val preserveExisting st))"
  by (simp add: result_invariant_def storageActions_setItemInStorage_def
      split: prod.split sum.split)

lemma invariant_hasPropertyForKey:
  "result_invariant (fst (storageActions_hasPropertyForKey js key property st))"
  by (simp add: result_invariant_def storageActions_hasPropertyForKey_def
      split: prod.split option.split sum.split)

lemma invariant_updateStoredPropsForKey:
  "result_invariant (fst (storageActions_updateStoredPropsForKey js key propertyUpdates st))"
  by (simp add: result_invariant_def storageActions_updateStoredPropsForKey_def
      split: prod.split sum.split)

text \<open>
  C7. Every \<open>StorageResult\<close> that an operation of the typed variant returns, for every
  input and every state of the store, has no \<open>error\<close> when \<open>success\<close> is true and no
  \<open>data\<close> when \<open>success\<close> is false.
\<close>

theorem typed_results_keep_invariant:
  "result_invariant (fst (storageActions_getEntryFromStorage js key st))
   \<and> result_invariant (fst (storageActions_setItemInStorage js key val preserveExisting st))
   \<and> result_invariant (fst (storageActions_hasPropertyForKey js key property st))
   \<and> result_invariant (fst (storageActions_updateStoredPropsForKey js key propertyUpdates st))"
  by (simp only: invariant_getEntryFromStorage invariant_setItemInStorage
      invariant_hasPropertyForKey invariant_updateStoredPropsForKey simp_thms)

theorem typed_results_keep_invariant_witness:
  "fst (storageActions_updateStoredPropsForKey sample_engine ''k'' [(''a'', JNum 1)] Map.empty)
     = \<lparr>success = False, data = None, error = Some ''k not found in storage.''\<rparr>
   \<and> result_invariant (fst (storageActions_updateStoredPropsForKey sample_engine ''k'' [(''a'', JNum 1)] Map.empty))
   \<and> fst (storageActions_setItemInStorage sample_engine ''k'' [(''a'', JNum 1)] True Map.empty)
     = \<lparr>success = True, data = Some (JObj [(''a'', JNum 1)]), error = None\<rparr>
   \<and> result_invariant (fst (storageActions_setItemInStorage sample_engine ''k'' [(''a'', JNum 1)] True Map.empty))"
proof -
  have upd: "fst (storageActions_updateStoredPropsForKey sample_engine ''k'' [(''a'', JNum 1)] Map.empty)
      = \<lparr>success = False, data = None, error = Some ''k not found in storage.''\<rparr>"
    by (simp add: storageActions_updateStoredPropsForKey_def
        storageActions_getEntryFromStorage_def store_defs)
  have wr: "fst (storageActions_setItemInStorage sample_engine ''k'' [(''a'', JNum 1)] True Map.empty)
      = \<lparr>success = True, data = Some (JObj [(''a'', JNum 1)]), error = None\<rparr>"
    by (simp add: storageActions_setItemInStorage_def
        storageActions_getEntryFromStorage_def store_defs)
  from typed_results_keep_invariant
    [of sample_engine "''k''" Map.empty "[(''a'', JNum 1)]" True "''a''" "[(''a'', JNum 1)]"]
  show ?thesis using upd wr by simp
qed

subsection \<open>Merging in the typed variant\<close>

text \<open>
  What the merge of the typed variant builds from an entry that is an object with the
  properties \<open>kvs\<close>: the keys of the entry and the incoming properties are distinct, as
  they are in any object.
\<close>

lemma set_insert_index: "set (insert_index i k v kvs) = insert (k, v) (set kvs)"
proof (induction kvs)
  case Nil
  then show ?case by simp
next
  case (Cons a kvs)
  obtain k' v' where a: "a = (k', v')" by (cases a)
  show ?case
    using Cons by (cases "array_index k'") (auto simp: a)
qed

lemma map_of_insert_index:
  "map_of kvs k = None \<Longrightarrow> map_of (insert_index i k v kvs) p = ((map_of kvs)(k \<mapsto> v)) p"
proof (induction kvs)
  case Nil
  then show ?case by simp
next
  case (Cons a kvs)
  obtain k' v' where a: "a = (k', v')" by (cases a)
  from Cons.prems have "k' \<noteq> k" and "map_of kvs k = None"
    by (auto simp: a split: if_splits)
  with Cons.IH show ?case
    by (cases "array_index k'") (auto simp: a)
qed

lemma distinct_insert_index:
  "map_of kvs k = None \<Longrightarrow> distinct (map fst kvs) \<Longrightarrow> distinct (map fst (insert_index i k v kvs))"
proof (induction kvs)
  case Nil
  then show ?case by simp
next
  case (Cons a kvs)
  obtain k' v' where a: "a = (k', v')" by (cases a)
  from Cons.prems have ne: "k' \<noteq> k" and absent: "map_of kvs k = None"
    by (auto simp: a split: if_splits)
  from absent have notin: "k \<notin> fst ` set kvs"
    by (simp add: map_of_eq_None_iff)
  from Cons.prems(2) have d: "k' \<notin> fst ` set kvs" "distinct (map fst kvs)"
    by (auto simp: a)
  have "fst ` set (insert_index i k v kvs) = insert k (fst ` set kvs)"
    by (simp add: set_insert_index)
  with Cons.IH [OF absent d(2)] ne notin d show ?case
    by (cases "array_index k'") (auto simp: a)
qed

lemma map_of_replace:
  "map_of (map (\<lambda>(k', v'). if k' = k then (k, v) else (k', v')) kvs) p =
     (if p = k \<and> map_of kvs k \<noteq> None then Some v else map_of kvs p)"
  by (induction kvs) auto

lemma keys_replace:
  "map fst (map (\<lambda>(k', v'). if k' = k then (k, v) else (k', v')) kvs) = map fst kvs"
  by (induction kvs) auto

lemma map_of_put: "map_of (put k v kvs) p = ((map_of kvs)(k \<mapsto> v)) p"
proof (cases "map_of kvs k")
  case None
  then show ?thesis
    by (cases "array_index k") (auto simp: put_def map_of_insert_index map_add_def split: option.split)
next
  case (Some x)
  then show ?thesis
    by (simp add: put_def map_of_replace)
qed

lemma distinct_put: "distinct (map fst kvs) \<Longrightarrow> distinct (map fst (put k v kvs))"
proof (cases "map_of kvs k")
  case None
  assume "distinct (map fst kvs)"
  with None show ?thesis
    by (cases "array_index k") (simp_all add: put_def distinct_insert_index map_of_eq_None_iff)
next
  case (Some x)
  assume "distinct (map fst kvs)"
  with Some show ?thesis
    by (simp add: put_def keys_replace del: map_map)
qed

lemma distinct_put_all: "distinct (map fst acc) \<Longrightarrow> distinct (map fst (put_all acc xs))"
  by (induction acc xs rule: put_all.induct) (simp_all add: distinct_put)

lemma map_of_put_all:
  "distinct (map fst xs) \<Longrightarrow> map_of (put_all acc xs) p = (map_of acc ++ map_of xs) p"
proof (induction acc xs rule: put_all.induct)
  case (1 acc)
  then show ?case by simp
next
  case (2 acc k v kvs)
  then have absent: "map_of kvs k = None"
    by (simp add: map_of_eq_None_iff)
  from 2 have "map_of (put_all (put k v acc) kvs) p = (map_of (put k v acc) ++ map_of kvs) p"
    by simp
  with absent show ?case
    by (simp add: map_of_put map_add_def split: option.split)
qed

lemma filter_entries_total:
  "filter_entries (\<lambda>k. Inr (P k)) xs = Inr (filter (\<lambda>(k, v). P k) xs)"
  by (induction xs) auto

lemma map_of_filter_keys:
  "map_of (filter (\<lambda>(k, v). P k) xs) p = (if P p then map_of xs p else None)"
  by (induction xs) auto

lemma str_includes_append: "str_includes ys pat \<Longrightarrow> str_includes (xs @ ys) pat"
  by (induction xs) auto

lemma not_found_message: "str_includes (key @ '' not found in storage.'') ''not found''"
  by (rule str_includes_append) simp

lemma merged_total:
  "merged (Some (JObj kvs)) (\<lambda>d k. Inr (P d k)) entries =
     Inr (put_all (put_all [] kvs) (fromEntries (filter (\<lambda>(k, v). P (JObj kvs) k) entries)))"
  by (simp add: merged_def filter_entries_total)

lemma map_of_merged:
  assumes "distinct (map fst kvs)" and "distinct (map fst entries)"
  shows "map_of (put_all (put_all [] kvs) (fromEntries (filter (\<lambda>(k, v). P k) entries))) p =
     (if P p \<and> map_of entries p \<noteq> None then map_of entries p else map_of kvs p)"
proof -
  let ?kept = "filter (\<lambda>(k, v). P k) entries"
  have dk: "distinct (map fst ?kept)"
    using assms(2) by (simp add: distinct_map_filter)
  then have kept: "map_of (fromEntries ?kept) p = map_of ?kept p"
    by (simp add: fromEntries_def map_of_put_all)
  have "distinct (map fst (fromEntries ?kept))"
    by (simp add: fromEntries_def distinct_put_all)
  then have "map_of (put_all (put_all [] kvs) (fromEntries ?kept)) p =
      (map_of (put_all [] kvs) ++ map_of (fromEntries ?kept)) p"
    by (rule map_of_put_all)
  also have "\<dots> = (case map_of ?kept p of None \<Rightarrow> map_of kvs p | Some v \<Rightarrow> Some v)"
    using assms(1) by (simp add: map_add_def kept map_of_put_all split: option.split)
  also have "\<dots> = (if P p \<and> map_of entries p \<noteq> None then map_of entries p else map_of kvs p)"
    by (auto simp: map_of_filter_keys split: option.split)
  finally show ?thesis .
qed

lemma distinct_merged:
  "distinct (map fst (put_all (put_all [] kvs) entries))"
  by (simp add: distinct_put_all)

lemma hasOwnProperty_object: "hasOwnProperty (JObj kvs) = (\<lambda>k. Inr (map_of kvs k \<noteq> None))"
  by (rule ext) simp

lemma merged_preserve_object:
  assumes "distinct (map fst kvs)" and "distinct (map fst val)"
  shows "\<exists>m. merged (Some (JObj kvs)) (\<lambda>d k. map_sum id Not (hasOwnProperty d k)) val = Inr m
     \<and> distinct (map fst m)
     \<and> (\<forall>p. map_of m p = (case map_of kvs p of Some x \<Rightarrow> Some x | None \<Rightarrow> map_of val p))"
proof -
  let ?m = "put_all (put_all [] kvs) (fromEntries (filter (\<lambda>(k, v). map_of kvs k = None) val))"
  have "merged (Some (JObj kvs)) (\<lambda>d k. map_sum id Not (hasOwnProperty d k)) val = Inr ?m"
    by (simp add: merged_def filter_entries_total)
  moreover have "distinct (map fst ?m)"
    by (rule distinct_merged)
  moreover have "map_of ?m p = (case map_of kvs p of Some x \<Rightarrow> Some x | None \<Rightarrow> map_of val p)" for p
    using map_of_merged [OF assms, of "\<lambda>k. map_of kvs k = None" p]
    by (auto split: option.split)
  ultimately show ?thesis by blast
qed

lemma merged_update_object:
  assumes "distinct (map fst kvs)" and "distinct (map fst upd)"
  shows "\<exists>m. merged (Some (JObj kvs)) hasOwnProperty upd = Inr m
     \<and> distinct (map fst m)
     \<and> (\<forall>p. map_of m p =
           (case map_of kvs p of
              None \<Rightarrow> None
            | Some x \<Rightarrow> (case map_of upd p of None \<Rightarrow> Some x | Some u \<Rightarrow> Some u)))"
proof -
  let ?m = "put_all (put_all [] kvs) (fromEntries (filter (\<lambda>(k, v). map_of kvs k \<noteq> None) upd))"
  have "merged (Some (JObj kvs)) hasOwnProperty upd = Inr ?m"
    by (simp add: merged_def hasOwnProperty_object filter_entries_total)
  moreover have "distinct (map fst ?m)"
    by (rule distinct_merged)
  moreover have "map_of ?m p =
           (case map_of kvs p of
              None \<Rightarrow> None
            | Some x \<Rightarrow> (case map_of upd p of None \<Rightarrow> Some x | Some u \<Rightarrow> Some u))" for p
    using map_of_merged [OF assms, of "\<lambda>k. map_of kvs k \<noteq> None" p]
    by (auto split: option.split)
  ultimately show ?thesis by blast
qed

subsection \<open>Preserve mode\<close>

text \<open>
  On an entry that is an object the typed preserve mode keeps every property of the
  entry and adds the incoming properties whose keys the entry lacks.
\<close>

lemma typed_preserve_on_object:
  assumes "getItem st key = Some text" and "text \<noteq> []"
    and "JSON_parse js text = Inr (JObj kvs)"
    and "distinct (map fst kvs)" and "distinct (map fst val)"
  shows "\<exists>m. storageActions_setItemInStorage js key val True st =
            (\<lparr>success = True, data = Some (JObj m), error = None\<rparr>,
             setItem st key (JSON_stringify js (JObj m)))
     \<and> distinct (map fst m)
     \<and> (\<forall>p. map_of m p = (case map_of kvs p of Some x \<Rightarrow> Some x | None \<Rightarrow> map_of val p))"
proof -
  from merged_preserve_object [OF assms(4,5)] obtain m where
    m: "merged (Some (JObj kvs)) (\<lambda>d k. map_sum id Not (hasOwnProperty d k)) val = Inr m"
      "distinct (map fst m)"
      "\<forall>p. map_of m p = (case map_of kvs p of Some x \<Rightarrow> Some x | None \<Rightarrow> map_of val p)"
    by blast
  have "storageActions_getEntryFromStorage js key st =
      (\<lparr>success = True, data = Some (JObj kvs), error = None\<rparr>, st)"
    using assms(1-3) by (simp add: storageActions_getEntryFromStorage_def)
  then have "storageActions_setItemInStorage js key val True st =
            (\<lparr>success = True, data = Some (JObj m), error = None\<rparr>,
             setItem st key (JSON_stringify js (JObj m)))"
    by (simp add: storageActions_setItemInStorage_def m(1))
  with m(2,3) show ?thesis by blast
qed

text \<open>
  The legacy preserve mode decides on the truth value of \<open>entry[key]\<close>: an existing
  property whose value is falsy is replaced by the incoming one.
\<close>

lemma legacy_read_of_object:
  assumes "getItem st key = Some text" and "text \<noteq> []" and "JSON_parse js text = Inr entry"
  shows "getEntryFromStorage js key st = (Inr entry, st)"
  using assms by (simp add: getEntryFromStorage_def)

lemma legacy_preserve_on_falsy_property:
  assumes "getItem st key = Some text" and "text \<noteq> []"
    and "JSON_parse js text = Inr (JObj kvs)"
    and "map_of kvs p = Some old" and "\<not> truthy old"
  shows "setItemInStorage js key (JObj [(p, v)]) True st =
     (True, setItem st key (JSON_stringify js (JObj (put p v kvs))))"
  using assms(4,5)
  by (simp add: setItemInStorage_def legacy_read_of_object [OF assms(1-3)] get_property_def
      assign_def reaches_proto_setter_def)

text \<open>
  C1. In preserve mode a write keeps every key of the existing entry bound to its
  existing value and adds the keys of the value that the entry lacks. The legacy
  function tests \<open>!entry[key]\<close>, the truth value of the property and not its presence:
  with the entry \<open>{"a":0}\<close> stored under \<open>k\<close>, the preserve-mode write of \<open>{a: 5}\<close>
  reports success and leaves \<open>{"a":5}\<close>, so the existing \<open>a\<close> is overwritten. The typed
  function, on the same store and value, leaves the entry as it was.
\<close>

theorem legacy_preserve_overwrites_falsy_property:
  "getEntryFromStorage sample_engine ''k'' [''k'' \<mapsto> ''{'' @ dquoted ''a'' @ '':0}'']
     = (Inr (JObj [(''a'', JNum 0)]), [''k'' \<mapsto> ''{'' @ dquoted ''a'' @ '':0}''])
   \<and> setItemInStorage sample_engine ''k'' (JObj [(''a'', JNum 5)]) True
       [''k'' \<mapsto> ''{'' @ dquoted ''a'' @ '':0}'']
     = (True, [''k'' \<mapsto> ''{'' @ dquoted ''a'' @ '':5}''])
   \<and> getEntryFromStorage sample_engine ''k'' [''k'' \<mapsto> ''{'' @ dquoted ''a'' @ '':5}'']
     = (Inr (JObj [(''a'', JNum 5)]), [''k'' \<mapsto> ''{'' @ dquoted ''a'' @ '':5}''])
   \<and> storageActions_setItemInStorage sample_engine ''k'' [(''a'', JNum 5)] True
       [''k'' \<mapsto> ''{'' @ dquoted ''a'' @ '':0}'']
     = (\<lparr>success = True, data = Some (JObj [(''a'', JNum 0)]), error = None\<rparr>,
        [''k'' \<mapsto> ''{'' @ dquoted ''a'' @ '':0}''])"
  by (simp add: setItemInStorage_def getEntryFromStorage_def storageActions_setItemInStorage_def
      storageActions_getEntryFromStorage_def merged_def fromEntries_def store_defs sample_defs
      assignment_defs)

text \<open>
  With no entry under the key, or an empty one, the typed preserve mode is the plain
  write. The legacy preserve mode reads \<open>null\<close> for the entry: it fails on the first
  key of the value, and for a value without keys it stores the text of \<open>null\<close>.
\<close>

lemma typed_read_of_missing:
  assumes "getItem st key = None \<or> getItem st key = Some []"
  shows "storageActions_getEntryFromStorage js key st =
        (\<lparr>success = False, data = None, error = Some (key @ '' not found in storage.'')\<rparr>, st)"
  using assms by (auto simp: storageActions_getEntryFromStorage_def)

lemma typed_preserve_on_missing:
  assumes "getItem st key = None \<or> getItem st key = Some []"
  shows "storageActions_setItemInStorage js key val True st =
           (\<lparr>success = True, data = Some (JObj val), error = None\<rparr>,
            setItem st key (JSON_stringify js (JObj val)))"
    and "storageActions_setItemInStorage js key val True st =
           storageActions_setItemInStorage js key val False st"
  by (simp_all add: storageActions_setItemInStorage_def typed_read_of_missing [OF assms]
      not_found_message)

lemma legacy_read_of_missing:
  assumes "getItem st key = None \<or> getItem st key = Some []"
  shows "getEntryFromStorage js key st = (Inr JNull, st)"
  using assms by (auto simp: getEntryFromStorage_def)

lemma legacy_preserve_on_missing:
  assumes "getItem st key = None \<or> getItem st key = Some []"
  shows "setItemInStorage js key v True st =
     (case object_keys v of
        Inr [] \<Rightarrow> (True, setItem st key (JSON_stringify js JNull))
      | _ \<Rightarrow> (False, st))"
  by (auto simp: setItemInStorage_def legacy_read_of_missing [OF assms] get_property_def
      split: sum.split list.split)

text \<open>
  C3. With no entry under the key, a preserve-mode write is to behave as the plain write:
  the entry ends up holding the value and the call reports success. The legacy function
  does not: with an empty store, the preserve-mode write of \<open>{a: 1}\<close> under \<open>k\<close> returns
  \<open>false\<close> and stores nothing, where its plain write returns \<open>true\<close> and stores
  \<open>{"a":1}\<close>, as the typed preserve-mode write does.
\<close>

theorem legacy_preserve_fails_without_entry:
  "setItemInStorage sample_engine ''k'' (JObj [(''a'', JNum 1)]) True Map.empty
     = (False, Map.empty)
   \<and> setItemInStorage sample_engine ''k'' (JObj [(''a'', JNum 1)]) False Map.empty
     = (True, [''k'' \<mapsto> ''{'' @ dquoted ''a'' @ '':1}''])
   \<and> storageActions_setItemInStorage sample_engine ''k'' [(''a'', JNum 1)] True Map.empty
     = (\<lparr>success = True, data = Some (JObj [(''a'', JNum 1)]), error = None\<rparr>,
        [''k'' \<mapsto> ''{'' @ dquoted ''a'' @ '':1}''])"
  by (simp add: setItemInStorage_def getEntryFromStorage_def storageActions_setItemInStorage_def
      storageActions_getEntryFromStorage_def store_defs sample_defs assignment_defs)

text \<open>
  A stored text that does not parse makes the typed preserve mode fail and leave the
  store alone, unless the message of the failed read includes \<open>not found\<close>: then it
  is taken for a missing entry and overwritten.
\<close>

lemma typed_preserve_on_unparsable:
  assumes "getItem st key = Some text" and "text \<noteq> []"
    and "JSON_parse js text = Inl e"
    and "\<not> str_includes (''Failed to get entry from storage: '' @ error_message e) ''not found''"
  shows "storageActions_setItemInStorage js key val True st =
        (\<lparr>success = False, data = None,
          error = Some (''Failed to get entry from storage: '' @ error_message e)\<rparr>, st)"
  using assms
  by (simp add: storageActions_setItemInStorage_def storageActions_getEntryFromStorage_def)

lemma typed_preserve_on_unparsable_not_found:
  assumes "getItem st key = Some text" and "text \<noteq> []"
    and "JSON_parse js text = Inl e"
    and "str_includes (''Failed to get entry from storage: '' @ error_message e) ''not found''"
  shows "storageActions_setItemInStorage js key val True st =
        (\<lparr>success = True, data = Some (JObj val), error = None\<rparr>,
            setItem st key (JSON_stringify js (JObj val)))"
  using assms
  by (simp add: storageActions_setItemInStorage_def storageActions_getEntryFromStorage_def)

text \<open>
  C10. In the typed variant a preserve-mode write to a key whose stored text is not
  valid JSON is to return a failure and leave the store unchanged. With the text
  \<open>item not found\<close> stored under \<open>k\<close>, the parse error's message quotes the text, the
  test \<open>error?.includes("not found")\<close> takes the failure for a missing entry, and the
  write of \<open>{a: 1}\<close> reports success and replaces the text.
\<close>

theorem typed_preserve_overwrites_unparsable_text:
  "fst (storageActions_getEntryFromStorage sample_engine ''k'' [''k'' \<mapsto> ''item not found''])
     = \<lparr>success = False, data = None,
        error = Some (''Failed to get entry from storage: Unexpected token '' @ quoted ''i''
                 @ '', '' @ dquoted ''item not found'' @ '' is not valid JSON'')\<rparr>
   \<and> storageActions_setItemInStorage sample_engine ''k'' [(''a'', JNum 1)] True
       [''k'' \<mapsto> ''item not found'']
     = (\<lparr>success = True, data = Some (JObj [(''a'', JNum 1)]), error = None\<rparr>,
        [''k'' \<mapsto> ''{'' @ dquoted ''a'' @ '':1}''])"
  by (simp add: storageActions_setItemInStorage_def storageActions_getEntryFromStorage_def
      store_defs sample_defs)

subsection \<open>Updating properties\<close>

text \<open>
  On an entry that is an object the typed update overwrites the properties of the entry
  that the updates name and has the keys of the entry, no more and no less.
\<close>

lemma typed_update_on_object:
  assumes "getItem st key = Some text" and "text \<noteq> []"
    and "JSON_parse js text = Inr (JObj kvs)"
    and "distinct (map fst kvs)" and "distinct (map fst upd)"
  shows "\<exists>m. storageActions_updateStoredPropsForKey js key upd st =
            (\<lparr>success = True, data = Some (JObj m), error = None\<rparr>,
             setItem st key (JSON_stringify js (JObj m)))
     \<and> distinct (map fst m)
     \<and> (\<forall>p. map_of m p =
           (case map_of kvs p of
              None \<Rightarrow> None
            | Some x \<Rightarrow> (case map_of upd p of None \<Rightarrow> Some x | Some u \<Rightarrow> Some u)))"
proof -
  from merged_update_object [OF assms(4,5)] obtain m where
    m: "merged (Some (JObj kvs)) hasOwnProperty upd = Inr m"
      "distinct (map fst m)"
      "\<forall>p. map_of m p =
           (case map_of kvs p of
              None \<Rightarrow> None
            | Some x \<Rightarrow> (case map_of upd p of None \<Rightarrow> Some x | Some u \<Rightarrow> Some u))"
    by blast
  have "storageActions_getEntryFromStorage js key st =
      (\<lparr>success = True, data = Some (JObj kvs), error = None\<rparr>, st)"
    using assms(1-3) by (simp add: storageActions_getEntryFromStorage_def)
  then have "storageActions_updateStoredPropsForKey js key upd st =
            (\<lparr>success = True, data = Some (JObj m), error = None\<rparr>,
             setItem st key (JSON_stringify js (JObj m)))"
    by (simp add: storageActions_updateStoredPropsForKey_def m(1))
  with m(2,3) show ?thesis by blast
qed

text \<open>
  The legacy update decides on the truth value of \<open>entry[property]\<close>: a name that the
  entry lacks and \<open>Object.prototype\<close> has becomes a property of the entry, and an
  existing property whose value is falsy is passed over.
\<close>

lemma legacy_update_on_inherited_name:
  assumes "getItem st key = Some text" and "text \<noteq> []"
    and "JSON_parse js text = Inr (JObj kvs)"
    and "map_of kvs p = None" and "p \<in> set (prototype_keys js ObjectPrototype)"
    and "p \<noteq> ''__proto__''"
  shows "updateStoredPropsForKey js key (JObj [(p, v)]) st =
     (True, setItem st key (JSON_stringify js (JObj (put p v kvs))))"
  using assms(4-6)
  by (simp add: updateStoredPropsForKey_def legacy_read_of_object [OF assms(1-3)] get_property_def
      assign_def reaches_proto_setter_def on_chain_def)

lemma legacy_update_on_falsy_property:
  assumes "getItem st key = Some text" and "text \<noteq> []"
    and "JSON_parse js text = Inr (JObj kvs)"
    and "map_of kvs p = Some old" and "\<not> truthy old"
  shows "updateStoredPropsForKey js key (JObj [(p, v)]) st =
     (True, setItem st key (JSON_stringify js (JObj kvs)))"
  using assms(4,5)
  by (simp add: updateStoredPropsForKey_def legacy_read_of_object [OF assms(1-3)] get_property_def)

text \<open>
  C2. An update overwrites a key only if the entry already has it, and never brings a
  new key into the stored entry. The legacy function tests \<open>entry[property]\<close>, which
  also finds what the entry inherits: with \<open>{"a":1}\<close> stored under \<open>k\<close>, the update
  \<open>{toString: "x"}\<close> finds the method \<open>Object.prototype.toString\<close>, assigns, and
  stores \<open>{"a":1,"toString":"x"}\<close>. The typed function drops the key. (The same test
  passes over an existing property whose value is falsy: the legacy update of
  \<open>{"a":0}\<close> by \<open>{a: 5}\<close> changes nothing, where the typed one stores \<open>{"a":5}\<close>.)
\<close>

theorem legacy_update_adds_inherited_name:
  "updateStoredPropsForKey sample_engine ''k'' (JObj [(''toString'', JStr ''x'')])
       [''k'' \<mapsto> ''{'' @ dquoted ''a'' @ '':1}'']
     = (True, [''k'' \<mapsto> ''{'' @ dquoted ''a'' @ '':1,'' @ dquoted ''toString'' @ '':''
                 @ dquoted ''x'' @ ''}''])
   \<and> getEntryFromStorage sample_engine ''k''
       [''k'' \<mapsto> ''{'' @ dquoted ''a'' @ '':1,'' @ dquoted ''toString'' @ '':''
                 @ dquoted ''x'' @ ''}'']
     = (Inr (JObj [(''a'', JNum 1), (''toString'', JStr ''x'')]),
        [''k'' \<mapsto> ''{'' @ dquoted ''a'' @ '':1,'' @ dquoted ''toString'' @ '':''
                 @ dquoted ''x'' @ ''}''])
   \<and> storageActions_updateStoredPropsForKey sample_engine ''k'' [(''toString'', JStr ''x'')]
       [''k'' \<mapsto> ''{'' @ dquoted ''a'' @ '':1}'']
     = (\<lparr>success = True, data = Some (JObj [(''a'', JNum 1)]), error = None\<rparr>,
        [''k'' \<mapsto> ''{'' @ dquoted ''a'' @ '':1}''])"
  by (simp add: updateStoredPropsForKey_def getEntryFromStorage_def
      storageActions_updateStoredPropsForKey_def storageActions_getEntryFromStorage_def
      merged_def fromEntries_def store_defs sample_defs assignment_defs)

lemma legacy_update_skips_falsy_property:
  "updateStoredPropsForKey sample_engine ''k'' (JObj [(''a'', JNum 5)])
       [''k'' \<mapsto> ''{'' @ dquoted ''a'' @ '':0}'']
     = (True, [''k'' \<mapsto> ''{'' @ dquoted ''a'' @ '':0}''])
   \<and> storageActions_updateStoredPropsForKey sample_engine ''k'' [(''a'', JNum 5)]
       [''k'' \<mapsto> ''{'' @ dquoted ''a'' @ '':0}'']
     = (\<lparr>success = True, data = Some (JObj [(''a'', JNum 5)]), error = None\<rparr>,
        [''k'' \<mapsto> ''{'' @ dquoted ''a'' @ '':5}''])"
  by (simp add: updateStoredPropsForKey_def getEntryFromStorage_def
      storageActions_updateStoredPropsForKey_def storageActions_getEntryFromStorage_def
      merged_def fromEntries_def store_defs sample_defs assignment_defs)

text \<open>
  With no entry under the key the typed update fails and says that the key was not
  found. The legacy update reads \<open>null\<close> for the entry and fails on the first key of
  the updates; without a key to visit it succeeds and stores the text of \<open>null\<close>.
\<close>

lemma typed_update_on_missing:
  assumes "getItem st key = None \<or> getItem st key = Some []"
  shows "storageActions_updateStoredPropsForKey js key upd st =
        (\<lparr>success = False, data = None, error = Some (key @ '' not found in storage.'')\<rparr>, st)"
  by (simp add: storageActions_updateStoredPropsForKey_def typed_read_of_missing [OF assms])

lemma legacy_update_on_missing:
  assumes "getItem st key = None \<or> getItem st key = Some []"
  shows "updateStoredPropsForKey js key upd st =
     (case object_keys upd of
        Inr [] \<Rightarrow> (True, setItem st key (JSON_stringify js JNull))
      | _ \<Rightarrow> (False, st))"
  by (auto simp: updateStoredPropsForKey_def legacy_read_of_missing [OF assms] get_property_def
      split: sum.split list.split)

text \<open>
  C5. With no entry under the key an update is to fail: the legacy function by returning
  \<open>false\<close>, the typed one with \<open>success = false\<close> and a message. With an empty store,
  the legacy update of \<open>k\<close> by the empty object \<open>{}\<close> returns \<open>true\<close> and stores
  \<open>null\<close> under \<open>k\<close>; the typed update fails and stores nothing.
\<close>

theorem legacy_update_without_entry_succeeds:
  "updateStoredPropsForKey sample_engine ''k'' (JObj []) Map.empty
     = (True, [''k'' \<mapsto> ''null''])
   \<and> storageActions_updateStoredPropsForKey sample_engine ''k'' [] Map.empty
     = (\<lparr>success = False, data = None, error = Some ''k not found in storage.''\<rparr>, Map.empty)"
  by (simp add: updateStoredPropsForKey_def getEntryFromStorage_def
      storageActions_updateStoredPropsForKey_def storageActions_getEntryFromStorage_def
      store_defs sample_defs)

subsection \<open>Asking for a property\<close>

text \<open>
  With no entry under the key the legacy \<open>hasPropertyForKey\<close> returns the entry it
  read, \<open>null\<close>: the left operand of \<open>entry && ...\<close>.
\<close>

lemma legacy_hasProperty_on_missing:
  assumes "getItem st key = None \<or> getItem st key = Some []"
  shows "hasPropertyForKey js key property st = (JNull, st)"
  by (simp add: hasPropertyForKey_def legacy_read_of_missing [OF assms])

text \<open>
  C6. With no entry under the key the legacy \<open>hasPropertyForKey\<close> is to return the
  boolean \<open>false\<close>. On an empty store, asked for the property \<open>x\<close> of \<open>missing-key\<close>,
  it returns \<open>null\<close>, which is not the boolean \<open>false\<close>.
\<close>

theorem legacy_hasProperty_without_entry_returns_null:
  "hasPropertyForKey sample_engine ''missing-key'' ''x'' Map.empty = (JNull, Map.empty)
   \<and> fst (hasPropertyForKey sample_engine ''missing-key'' ''x'' Map.empty) \<noteq> JBool False"
  by (simp add: hasPropertyForKey_def getEntryFromStorage_def store_defs)

end
